theory Spec2Isabelle
  imports Main
begin

section \<open>The query dispatcher of the GraphQL smoke-test server\<close>

text \<open>
  The development embeds \<open>GraphQLHandler\<close>, the request handler that
  \<open>test_postgres_backend.py\<close> writes into a server script (the text assigned to
  \<open>graphql_server_code\<close>). The handler is modelled as that text reads: the SQL of the
  posts branch is the text between the inner triple quotes.

  Python values are modelled by the datatype \<open>json\<close>; a Python \<open>str\<close> and a
  \<open>bytes\<close> object are both a \<open>string\<close>. A computation that may raise returns a sum
  whose \<open>Inl\<close> carries \<open>str(e)\<close> of the exception. The functions of Python's library
  that the handler calls (\<open>int\<close>, \<open>bytes.decode\<close>, \<open>json.loads\<close>, \<open>json.dumps\<close>,
  \<open>subprocess.run\<close>) are parameters, collected in the record \<open>env\<close>.
\<close>

subsection \<open>Python values\<close>

datatype json =
    JNull
  | JBool bool
  | JNum int
  | JStr string
  | JArr "json list"
  | JObj "(string \<times> json) list"

text \<open>
  The handler never looks inside a number, so one constructor stands for the numbers
  that \<open>json.loads\<close> returns.

  The name that \<open>type(v).__name__\<close> gives, used in the text of exceptions.
\<close>

fun py_type_name :: "json \<Rightarrow> string" where
  "py_type_name JNull = ''NoneType''"
| "py_type_name (JBool b) = ''bool''"
| "py_type_name (JNum n) = ''int''"
| "py_type_name (JStr s) = ''str''"
| "py_type_name (JArr xs) = ''list''"
| "py_type_name (JObj kvs) = ''dict''"

definition quoted :: "string \<Rightarrow> string" where
  "quoted s = [CHR 0x27] @ s @ [CHR 0x27]"

text \<open>\<open>needle in hay\<close> on two strings: \<open>needle\<close> occurs as a contiguous substring.\<close>

fun str_contains :: "string \<Rightarrow> string \<Rightarrow> bool" where
  "str_contains needle [] = (needle = [])"
| "str_contains needle (c # cs) =
     (take (length needle) (c # cs) = needle \<or> str_contains needle cs)"

text \<open>
  \<open>needle in v\<close> for a value \<open>v\<close>: substring test on a string, membership in a list,
  key membership in a dict, and \<open>TypeError\<close> on every other value.
\<close>

fun py_in :: "string \<Rightarrow> json \<Rightarrow> string + bool" where
  "py_in needle (JStr s) = Inr (str_contains needle s)"
| "py_in needle (JArr xs) = Inr (JStr needle \<in> set xs)"
| "py_in needle (JObj kvs) = Inr (needle \<in> set (map fst kvs))"
| "py_in needle v =
     Inl (''argument of type '' @ quoted (py_type_name v) @ '' is not iterable'')"

text \<open>\<open>d.get(key, default)\<close>: defined on a dict only; \<open>AttributeError\<close> otherwise.\<close>

fun py_get :: "json \<Rightarrow> string \<Rightarrow> json \<Rightarrow> string + json" where
  "py_get (JObj kvs) key dflt =
     Inr (case map_of kvs key of None \<Rightarrow> dflt | Some v \<Rightarrow> v)"
| "py_get v key dflt =
     Inl (quoted (py_type_name v) @ '' object has no attribute '' @ quoted ''get'')"

text \<open>\<open>str.strip()\<close>: the white space of \<open>str.isspace\<close> among the code points below 256.\<close>

definition is_space :: "char \<Rightarrow> bool" where
  "is_space c = ((of_char c :: nat) \<in> set [9, 10, 11, 12, 13, 28, 29, 30, 31, 32, 133, 160])"

definition strip :: "string \<Rightarrow> string" where
  "strip s = rev (dropWhile is_space (rev (dropWhile is_space s)))"

subsection \<open>The environment of the handler\<close>

record completed_process =
  returncode :: int
  stdout :: string
  stderr :: string

record env =
  int_of_str :: "string \<Rightarrow> string + int"
  utf8_decode :: "string \<Rightarrow> string + string"
  json_loads :: "string \<Rightarrow> string + json"
  json_dumps :: "json \<Rightarrow> string"
  subprocess_run :: "string list \<Rightarrow> string + completed_process"

record request =
  path :: string
  headers :: "(string \<times> string) list"
  rfile :: string

text \<open>
  What a handler does that is visible outside: the status codes it passes to
  \<open>send_response\<close>, the headers it passes to \<open>send_header\<close> (the \<open>Server\<close> and
  \<open>Date\<close> lines that the library adds to every answer are left out), the bytes it
  writes as body, and the argument lists of the backend processes it starts, each in
  order.
\<close>

record trace =
  status_lines :: "nat list"
  header_lines :: "(string \<times> string) list"
  headers_ended :: bool
  wfile :: string
  backend_calls :: "string list list"

definition no_trace :: trace where
  "no_trace = \<lparr>status_lines = [], header_lines = [], headers_ended = False,
     wfile = [], backend_calls = []\<rparr>"

definition send_response :: "nat \<Rightarrow> trace \<Rightarrow> trace" where
  "send_response code t = t\<lparr>status_lines := status_lines t @ [code]\<rparr>"

definition send_header :: "string \<Rightarrow> string \<Rightarrow> trace \<Rightarrow> trace" where
  "send_header keyword v t = t\<lparr>header_lines := header_lines t @ [(keyword, v)]\<rparr>"

definition end_headers :: "trace \<Rightarrow> trace" where
  "end_headers t = t\<lparr>headers_ended := True\<rparr>"

definition wfile_write :: "string \<Rightarrow> trace \<Rightarrow> trace" where
  "wfile_write b t = t\<lparr>wfile := wfile t @ b\<rparr>"

text \<open>\<open>self.headers[name]\<close>: header names compare without case; \<open>None\<close> when missing.\<close>

definition to_lower :: "char \<Rightarrow> char" where
  "to_lower c = (if 65 \<le> (of_char c :: nat) \<and> (of_char c :: nat) \<le> 90
                 then char_of ((of_char c :: nat) + 32) else c)"

definition header_get :: "(string \<times> string) list \<Rightarrow> string \<Rightarrow> string option" where
  "header_get hs name = map_of (map (\<lambda>kv. (map to_lower (fst kv), snd kv)) hs) (map to_lower name)"

text \<open>\<open>int(x)\<close> where \<open>x\<close> is a header value or \<open>None\<close>.\<close>

definition py_int :: "env \<Rightarrow> string option \<Rightarrow> string + int" where
  "py_int env x = (case x of
       None \<Rightarrow> Inl (''int() argument must be a string, a bytes-like object or a real number, not ''
                    @ quoted ''NoneType'')
     | Some s \<Rightarrow> int_of_str env s)"

text \<open>\<open>self.rfile.read(n)\<close> on a buffered reader holding the rest of the request.\<close>

definition rfile_read :: "string \<Rightarrow> int \<Rightarrow> string + string" where
  "rfile_read bytes n =
     (if 0 \<le> n then Inr (take (nat n) bytes)
      else if n = - 1 then Inr bytes
      else Inl ''read length must be non-negative or -1'')"

subsection \<open>The handler\<close>

definition users_cmd :: "string list" where
  "users_cmd = [''psql'', ''codegen_backend_test'', ''-t'', ''-c'',
     ''SELECT json_agg(row_to_json(users)) FROM users;'']"

definition nl :: string where
  "nl = [CHR 0x0A]"

definition posts_sql :: string where
  "posts_sql =
     ''SELECT json_agg('' @ nl @
     ''                            json_build_object('' @ nl @
     ''                                '' @ quoted ''id'' @ '', p.id,'' @ nl @
     ''                                '' @ quoted ''title'' @ '', p.title,'' @ nl @
     ''                                '' @ quoted ''content'' @ '', p.content,'' @ nl @
     ''                                '' @ quoted ''published'' @ '', p.published,'' @ nl @
     ''                                '' @ quoted ''author'' @ '', json_build_object(''
        @ quoted ''name'' @ '', u.name, '' @ quoted ''email'' @ '', u.email)'' @ nl @
     ''                            )'' @ nl @
     ''                        ) FROM posts p JOIN users u ON p.author_id = u.id WHERE p.published = true;''"

definition posts_cmd :: "string list" where
  "posts_cmd = [''psql'', ''codegen_backend_test'', ''-t'', ''-c'', posts_sql]"

definition errors_response :: "string \<Rightarrow> json" where
  "errors_response msg = JObj [(''errors'', JArr [JObj [(''message'', JStr msg)]])]"

definition data_response :: "string \<Rightarrow> json \<Rightarrow> json" where
  "data_response field v = JObj [(''data'', JObj [(field, v)])]"

text \<open>The branch \<open>if 'users' in query\<close>: the response dict, or the exception raised.\<close>

definition users_branch :: "env \<Rightarrow> (string + json) \<times> string list list" where
  "users_branch env =
     (case subprocess_run env users_cmd of
        Inl e \<Rightarrow> (Inl e, [users_cmd])
      | Inr result \<Rightarrow>
          (if returncode result = 0 then
             (let users_data = strip (stdout result) in
              if users_data \<noteq> [] \<and> users_data \<noteq> ''null'' then
                (case json_loads env users_data of
                   Inl e \<Rightarrow> Inl e
                 | Inr v \<Rightarrow> Inr (data_response ''users'' v))
              else Inr (data_response ''users'' (JArr [])))
           else Inr (errors_response ''Database query failed''),
           [users_cmd]))"

text \<open>The branch \<open>elif 'posts' in query\<close>.\<close>

definition posts_branch :: "env \<Rightarrow> (string + json) \<times> string list list" where
  "posts_branch env =
     (case subprocess_run env posts_cmd of
        Inl e \<Rightarrow> (Inl e, [posts_cmd])
      | Inr result \<Rightarrow>
          (if returncode result = 0 then
             (let posts_data = strip (stdout result) in
              if posts_data \<noteq> [] \<and> posts_data \<noteq> ''null'' then
                (case json_loads env posts_data of
                   Inl e \<Rightarrow> Inl e
                 | Inr v \<Rightarrow> Inr (data_response ''posts'' v))
              else Inr (data_response ''posts'' (JArr [])))
           else Inr (errors_response ''Database query failed''),
           [posts_cmd]))"

text \<open>\<open>json.loads(post_data.decode('utf-8'))\<close>.\<close>

definition parse_body :: "env \<Rightarrow> string \<Rightarrow> string + json" where
  "parse_body env post_data =
     (case utf8_decode env post_data of
        Inl e \<Rightarrow> Inl e
      | Inr text \<Rightarrow> json_loads env text)"

text \<open>
  The statements of the \<open>try\<close> block up to the assignment of \<open>response\<close>: the
  response dict or the text of the exception raised, and the backend calls made.
\<close>

definition resolve :: "env \<Rightarrow> string \<Rightarrow> (string + json) \<times> string list list" where
  "resolve env post_data =
     (case parse_body env post_data of
        Inl e \<Rightarrow> (Inl e, [])
      | Inr query_data \<Rightarrow>
     (case py_get query_data ''query'' (JStr []) of
        Inl e \<Rightarrow> (Inl e, [])
      | Inr query \<Rightarrow>
     (case py_in ''users'' query of
        Inl e \<Rightarrow> (Inl e, [])
      | Inr is_users \<Rightarrow>
          if is_users then users_branch env
          else
     (case py_in ''posts'' query of
        Inl e \<Rightarrow> (Inl e, [])
      | Inr is_posts \<Rightarrow>
          if is_posts then posts_branch env
          else (Inr (errors_response ''Unknown query''), [])))))"

text \<open>
  What the handler writes after the \<open>try\<close> block produced a response dict. The
  output of \<open>json.dumps\<close> is ASCII, so \<open>.encode()\<close> leaves it as it is.
\<close>

definition write_ok :: "env \<Rightarrow> json \<Rightarrow> trace \<Rightarrow> trace" where
  "write_ok env response t =
     wfile_write (json_dumps env response)
       (end_headers
         (send_header ''Access-Control-Allow-Origin'' ''*''
           (send_header ''Content-type'' ''application/json''
             (send_response 200 t))))"

text \<open>The \<open>except Exception as e\<close> clause.\<close>

definition write_error :: "env \<Rightarrow> string \<Rightarrow> trace \<Rightarrow> trace" where
  "write_error env e t =
     wfile_write (json_dumps env (errors_response e))
       (end_headers
         (send_header ''Content-type'' ''application/json''
           (send_response 500 t)))"

text \<open>
  The two statements before the \<open>try\<close>:
  \<open>content_length = int(self.headers['Content-Length'])\<close> and
  \<open>post_data = self.rfile.read(content_length)\<close>.
\<close>

definition read_body :: "env \<Rightarrow> request \<Rightarrow> string + string" where
  "read_body env req =
     (case py_int env (header_get (headers req) ''Content-Length'') of
        Inl e \<Rightarrow> Inl e
      | Inr content_length \<Rightarrow> rfile_read (rfile req) content_length)"

text \<open>
  \<open>do_POST\<close>. The result \<open>Inl e\<close> is an exception that leaves the method; the two
  statements before the \<open>try\<close> are the only ones that can raise one.
\<close>

definition do_POST :: "env \<Rightarrow> request \<Rightarrow> string + trace" where
  "do_POST env req =
     (if path req = ''/graphql'' then
        (case read_body env req of
           Inl e \<Rightarrow> Inl e
         | Inr post_data \<Rightarrow>
        (case resolve env post_data of
           (Inr response, calls) \<Rightarrow>
             Inr (write_ok env response (no_trace\<lparr>backend_calls := calls\<rparr>))
         | (Inl e, calls) \<Rightarrow>
             Inr (write_error env e (no_trace\<lparr>backend_calls := calls\<rparr>))))
      else Inr (end_headers (send_response 404 no_trace)))"

definition do_OPTIONS :: "request \<Rightarrow> trace" where
  "do_OPTIONS req =
     end_headers
       (send_header ''Access-Control-Allow-Headers'' ''Content-Type''
         (send_header ''Access-Control-Allow-Methods'' ''POST, OPTIONS''
           (send_header ''Access-Control-Allow-Origin'' ''*''
             (send_response 200 no_trace))))"

text \<open>The two methods the handler defines, as the server calls them for a request.\<close>

datatype http_method = POST | OPTIONS

fun handle :: "env \<Rightarrow> http_method \<Rightarrow> request \<Rightarrow> string + trace" where
  "handle env POST req = do_POST env req"
| "handle env OPTIONS req = Inr (do_OPTIONS req)"


text \<open>The branch of the \<open>if\<close>/\<open>elif\<close>/\<open>else\<close> chain that a query text selects.\<close>

datatype branch = Users | Posts | Unknown

definition keyword_branch :: "string \<Rightarrow> branch" where
  "keyword_branch q =
     (if str_contains ''users'' q then Users
      else if str_contains ''posts'' q then Posts
      else Unknown)"

definition branch_calls :: "branch \<Rightarrow> string list list" where
  "branch_calls b = (case b of Users \<Rightarrow> [users_cmd] | Posts \<Rightarrow> [posts_cmd] | Unknown \<Rightarrow> [])"

subsection \<open>Shapes of response bodies\<close>

fun is_list :: "json \<Rightarrow> bool" where
  "is_list (JArr xs) = True"
| "is_list v = False"

text \<open>An object that has a \<open>message\<close> whose value is a string.\<close>

fun has_message :: "json \<Rightarrow> bool" where
  "has_message (JObj kvs) =
     (case map_of kvs ''message'' of Some (JStr m) \<Rightarrow> True | _ \<Rightarrow> False)"
| "has_message v = False"

text \<open>
  \<open>errors_shape\<close>: the only key is \<open>errors\<close>, over a non-empty array of objects with a
  message. \<open>data_shape ok\<close>: the only key is \<open>data\<close>, over an object whose only key is
  \<open>users\<close> or \<open>posts\<close> and whose value satisfies \<open>ok\<close> for that key.
\<close>

fun errors_shape :: "json \<Rightarrow> bool" where
  "errors_shape (JObj [(k, JArr es)]) = (k = ''errors'' \<and> es \<noteq> [] \<and> list_all has_message es)"
| "errors_shape v = False"

fun data_shape :: "(string \<Rightarrow> json \<Rightarrow> bool) \<Rightarrow> json \<Rightarrow> bool" where
  "data_shape ok (JObj [(k, JObj [(field, r)])]) =
     (k = ''data'' \<and> (field = ''users'' \<or> field = ''posts'') \<and> ok field r)"
| "data_shape ok v = False"

text \<open>
  \<open>r\<close> is what the backend command of \<open>field\<close> printed: the command exited with code 0
  and \<open>r\<close> is the decoding of its stripped output.
\<close>

definition decoded_output :: "env \<Rightarrow> string \<Rightarrow> json \<Rightarrow> bool" where
  "decoded_output env field r =
     (case subprocess_run env (if field = ''users'' then users_cmd else posts_cmd) of
        Inl e \<Rightarrow> False
      | Inr result \<Rightarrow>
          returncode result = 0 \<and> json_loads env (strip (stdout result)) = Inr r)"

subsection \<open>A concrete environment\<close>

text \<open>
  For running the handler on concrete requests: \<open>decimal_int\<close> is \<open>int\<close> on plain
  decimal numerals, \<open>dumps\<close> is \<open>json.dumps\<close> on values whose strings are printable
  ASCII, and \<open>table_loads\<close> is \<open>json.loads\<close> on the texts of \<open>loads_table\<close>.
\<close>

definition dq :: "string \<Rightarrow> string" where
  "dq s = [CHR 0x22] @ s @ [CHR 0x22]"

definition is_digit :: "char \<Rightarrow> bool" where
  "is_digit c = (48 \<le> (of_char c :: nat) \<and> (of_char c :: nat) \<le> 57)"

definition decimal_int :: "string \<Rightarrow> string + int" where
  "decimal_int s =
     (if s \<noteq> [] \<and> list_all is_digit s
      then Inr (int (foldl (\<lambda>a c. 10 * a + ((of_char c :: nat) - 48)) 0 s))
      else Inl (''invalid literal for int() with base 10: '' @ quoted s))"

fun escape_char :: "char \<Rightarrow> string" where
  "escape_char c =
     (if c = CHR 0x22 then [CHR 0x5C, CHR 0x22]
      else if c = CHR 0x5C then [CHR 0x5C, CHR 0x5C]
      else [c])"

fun join :: "string \<Rightarrow> string list \<Rightarrow> string" where
  "join sep [] = []"
| "join sep [x] = x"
| "join sep (x # y # ys) = x @ sep @ join sep (y # ys)"

fun digits :: "nat \<Rightarrow> string" where
  "digits n =
     (if n < 10 then [char_of (48 + n)]
      else digits (n div 10) @ [char_of (48 + n mod 10)])"

declare digits.simps [simp del]

fun dumps :: "json \<Rightarrow> string" where
  "dumps JNull = ''null''"
| "dumps (JBool b) = (if b then ''true'' else ''false'')"
| "dumps (JNum n) = (if n < 0 then ''-'' @ digits (nat (- n)) else digits (nat n))"
| "dumps (JStr s) = dq (concat (map escape_char s))"
| "dumps (JArr xs) = ''['' @ join '', '' (map dumps xs) @ '']''"
| "dumps (JObj kvs) =
     ''{'' @ join '', ''
        (map (\<lambda>kv. dq (concat (map escape_char (fst kv))) @ '': '' @ dumps (snd kv)) kvs)
       @ ''}''"

definition query_body :: "string \<Rightarrow> string" where
  "query_body q = ''{'' @ dq ''query'' @ '': '' @ dq q @ ''}''"

definition loads_table :: "(string \<times> json) list" where
  "loads_table =
     [(query_body ''{ users { id name email } }'',
         JObj [(''query'', JStr ''{ users { id name email } }'')]),
      (query_body ''{ posts { id title author { name } } }'',
         JObj [(''query'', JStr ''{ posts { id title author { name } } }'')]),
      (query_body ''{ posts { title } users { name } }'',
         JObj [(''query'', JStr ''{ posts { title } users { name } }'')]),
      (query_body ''{ unknownField }'',
         JObj [(''query'', JStr ''{ unknownField }'')]),
      (query_body ''{ Users { id } }'',
         JObj [(''query'', JStr ''{ Users { id } }'')]),
      (''{'' @ dq ''query'' @ '': 5}'', JObj [(''query'', JNum 5)]),
      (''[{'' @ dq ''id'' @ '': 1}]'', JArr [JObj [(''id'', JNum 1)]]),
      (''{'' @ dq ''id'' @ '': 1}'', JObj [(''id'', JNum 1)])]"

definition table_loads :: "string \<Rightarrow> string + json" where
  "table_loads s =
     (case map_of loads_table s of
        Some v \<Rightarrow> Inr v
      | None \<Rightarrow> Inl ''Expecting value: line 1 column 1 (char 0)'')"

text \<open>A backend whose every invocation exits with the given code and output.\<close>

definition psql_gives :: "int \<Rightarrow> string \<Rightarrow> string \<Rightarrow> string list \<Rightarrow> string + completed_process" where
  "psql_gives code out err args = Inr \<lparr>returncode = code, stdout = out, stderr = err\<rparr>"

definition test_env :: "(string list \<Rightarrow> string + completed_process) \<Rightarrow> env" where
  "test_env run =
     \<lparr>int_of_str = decimal_int, utf8_decode = Inr, json_loads = table_loads,
      json_dumps = dumps, subprocess_run = run\<rparr>"

text \<open>A request for \<open>p\<close> whose body is \<open>b\<close>, with the length of \<open>b\<close> declared.\<close>

definition request_to :: "string \<Rightarrow> string \<Rightarrow> request" where
  "request_to p b =
     \<lparr>path = p, headers = [(''Content-Length'', digits (length b))], rfile = b\<rparr>"

text \<open>Requests and backend outputs used to run the handler.\<close>

definition users_request :: request where
  "users_request = request_to ''/graphql'' (query_body ''{ users { id name email } }'')"

definition posts_request :: request where
  "posts_request = request_to ''/graphql'' (query_body ''{ posts { id title author { name } } }'')"

definition both_request :: request where
  "both_request = request_to ''/graphql'' (query_body ''{ posts { title } users { name } }'')"

definition unknown_request :: request where
  "unknown_request = request_to ''/graphql'' (query_body ''{ unknownField }'')"

definition cased_request :: request where
  "cased_request = request_to ''/graphql'' (query_body ''{ Users { id } }'')"

definition number_request :: request where
  "number_request = request_to ''/graphql'' (''{'' @ dq ''query'' @ '': 5}'')"

definition rows_out :: string where
  "rows_out = '' [{'' @ dq ''id'' @ '': 1}]'' @ nl"

definition object_out :: string where
  "object_out = '' {'' @ dq ''id'' @ '': 1}'' @ nl"

section \<open>Properties of the handler\<close>

subsection \<open>Auxiliary facts\<close>

lemma str_contains_iff: "str_contains needle hay \<longleftrightarrow> (\<exists>ps ss. hay = ps @ needle @ ss)"
proof (induction hay)
  case Nil
  then show ?case by auto
next
  case (Cons c cs)
  have "take (length needle) (c # cs) = needle \<longleftrightarrow> (\<exists>ss. c # cs = needle @ ss)"
    by (metis append_eq_conv_conj)
  moreover have "(\<exists>ps ss. c # cs = ps @ needle @ ss) \<longleftrightarrow>
      (\<exists>ss. c # cs = needle @ ss) \<or> (\<exists>ps ss. cs = ps @ needle @ ss)"
  proof
    assume "\<exists>ps ss. c # cs = ps @ needle @ ss"
    then obtain ps ss where eq: "c # cs = ps @ needle @ ss" by blast
    show "(\<exists>ss. c # cs = needle @ ss) \<or> (\<exists>ps ss. cs = ps @ needle @ ss)"
    proof (cases ps)
      case Nil
      with eq show ?thesis by auto
    next
      case (Cons p ps')
      with eq have "cs = ps' @ needle @ ss" by simp
      then show ?thesis by blast
    qed
  next
    assume "(\<exists>ss. c # cs = needle @ ss) \<or> (\<exists>ps ss. cs = ps @ needle @ ss)"
    then show "\<exists>ps ss. c # cs = ps @ needle @ ss"
    proof
      assume "\<exists>ss. c # cs = needle @ ss"
      then obtain ss where "c # cs = [] @ needle @ ss" by auto
      then show ?thesis by blast
    next
      assume "\<exists>ps ss. cs = ps @ needle @ ss"
      then obtain ps ss where "c # cs = (c # ps) @ needle @ ss" by auto
      then show ?thesis by blast
    qed
  qed
  ultimately show ?case using Cons.IH by simp
qed

lemma write_ok_explicit:
  "write_ok env response (no_trace\<lparr>backend_calls := calls\<rparr>) =
     \<lparr>status_lines = [200],
      header_lines = [(''Content-type'', ''application/json''),
                      (''Access-Control-Allow-Origin'', ''*'')],
      headers_ended = True,
      wfile = json_dumps env response,
      backend_calls = calls\<rparr>"
  by (simp add: write_ok_def wfile_write_def end_headers_def send_header_def
      send_response_def no_trace_def)

lemma write_error_explicit:
  "write_error env e (no_trace\<lparr>backend_calls := calls\<rparr>) =
     \<lparr>status_lines = [500],
      header_lines = [(''Content-type'', ''application/json'')],
      headers_ended = True,
      wfile = json_dumps env (errors_response e),
      backend_calls = calls\<rparr>"
  by (simp add: write_error_def wfile_write_def end_headers_def send_header_def
      send_response_def no_trace_def)

lemma do_POST_endpoint:
  assumes "path req = ''/graphql''" and "read_body env req = Inr post_data"
  shows "do_POST env req =
     (case resolve env post_data of
        (Inr response, calls) \<Rightarrow>
          Inr (write_ok env response (no_trace\<lparr>backend_calls := calls\<rparr>))
      | (Inl e, calls) \<Rightarrow>
          Inr (write_error env e (no_trace\<lparr>backend_calls := calls\<rparr>)))"
  using assms by (simp add: do_POST_def)

lemma resolve_query:
  assumes "parse_body env post_data = Inr query_data"
    and "py_get query_data ''query'' (JStr []) = Inr query"
    and "py_in ''users'' query = Inr is_users"
    and "py_in ''posts'' query = Inr is_posts"
  shows "resolve env post_data =
     (if is_users then users_branch env
      else if is_posts then posts_branch env
      else (Inr (errors_response ''Unknown query''), []))"
  using assms by (simp add: resolve_def)

lemma users_branch_ok:
  assumes "subprocess_run env users_cmd = Inr result" and "returncode result = 0"
  shows "users_branch env =
     (if strip (stdout result) \<noteq> [] \<and> strip (stdout result) \<noteq> ''null'' then
        (case json_loads env (strip (stdout result)) of
           Inl e \<Rightarrow> Inl e
         | Inr v \<Rightarrow> Inr (data_response ''users'' v))
      else Inr (data_response ''users'' (JArr [])), [users_cmd])"
  using assms by (simp add: users_branch_def Let_def)

lemma posts_branch_ok:
  assumes "subprocess_run env posts_cmd = Inr result" and "returncode result = 0"
  shows "posts_branch env =
     (if strip (stdout result) \<noteq> [] \<and> strip (stdout result) \<noteq> ''null'' then
        (case json_loads env (strip (stdout result)) of
           Inl e \<Rightarrow> Inl e
         | Inr v \<Rightarrow> Inr (data_response ''posts'' v))
      else Inr (data_response ''posts'' (JArr [])), [posts_cmd])"
  using assms by (simp add: posts_branch_def Let_def)

subsection \<open>The users query\<close>

text \<open>
  Claim C1. A POST request to \<open>/graphql\<close> whose body parses as JSON and whose \<open>query\<close>
  text contains \<open>users\<close> and not \<open>posts\<close> is answered, when the backend exits with
  code 0, with status 200 and the body \<open>{"data": {"users": R}}\<close>: \<open>R\<close> is the decoded
  stripped output of the users command when that output is neither empty nor \<open>null\<close>,
  and the empty list when it is empty or \<open>null\<close>.
\<close>

theorem users_query_returns_data:
  assumes "path req = ''/graphql''"
    and "read_body env req = Inr post_data"
    and "parse_body env post_data = Inr query_data"
    and "py_get query_data ''query'' (JStr []) = Inr (JStr q)"
    and "str_contains ''users'' q" and "\<not> str_contains ''posts'' q"
    and "subprocess_run env users_cmd = Inr result" and "returncode result = 0"
  shows "(strip (stdout result) \<noteq> [] \<and> strip (stdout result) \<noteq> ''null'' \<and>
          json_loads env (strip (stdout result)) = Inr R \<longrightarrow>
            do_POST env req = Inr
              \<lparr>status_lines = [200],
               header_lines = [(''Content-type'', ''application/json''),
                               (''Access-Control-Allow-Origin'', ''*'')],
               headers_ended = True,
               wfile = json_dumps env (JObj [(''data'', JObj [(''users'', R)])]),
               backend_calls = [users_cmd]\<rparr>) \<and>
         (strip (stdout result) = [] \<or> strip (stdout result) = ''null'' \<longrightarrow>
            do_POST env req = Inr
              \<lparr>status_lines = [200],
               header_lines = [(''Content-type'', ''application/json''),
                               (''Access-Control-Allow-Origin'', ''*'')],
               headers_ended = True,
               wfile = json_dumps env (JObj [(''data'', JObj [(''users'', JArr [])])]),
               backend_calls = [users_cmd]\<rparr>)"
proof -
  have "resolve env post_data = users_branch env"
    using assms(3-5) by (simp add: resolve_query [where is_users = True])
  then show ?thesis
    using assms(7,8)
    by (auto simp: do_POST_endpoint [OF assms(1,2)] users_branch_ok write_ok_explicit
        data_response_def)
qed

theorem users_query_returns_data_witness:
  "path users_request = ''/graphql'' \<and>
   read_body (test_env (psql_gives 0 rows_out [])) users_request
     = Inr (query_body ''{ users { id name email } }'') \<and>
   parse_body (test_env (psql_gives 0 rows_out [])) (query_body ''{ users { id name email } }'')
     = Inr (JObj [(''query'', JStr ''{ users { id name email } }'')]) \<and>
   py_get (JObj [(''query'', JStr ''{ users { id name email } }'')]) ''query'' (JStr [])
     = Inr (JStr ''{ users { id name email } }'') \<and>
   str_contains ''users'' ''{ users { id name email } }'' \<and>
   \<not> str_contains ''posts'' ''{ users { id name email } }'' \<and>
   subprocess_run (test_env (psql_gives 0 rows_out [])) users_cmd
     = Inr \<lparr>returncode = 0, stdout = rows_out, stderr = []\<rparr> \<and>
   strip rows_out \<noteq> [] \<and> strip rows_out \<noteq> ''null'' \<and>
   json_loads (test_env (psql_gives 0 rows_out [])) (strip rows_out)
     = Inr (JArr [JObj [(''id'', JNum 1)]]) \<and>
   do_POST (test_env (psql_gives 0 rows_out [])) users_request = Inr
     \<lparr>status_lines = [200],
      header_lines = [(''Content-type'', ''application/json''),
                      (''Access-Control-Allow-Origin'', ''*'')],
      headers_ended = True,
      wfile = json_dumps (test_env (psql_gives 0 rows_out []))
                (JObj [(''data'', JObj [(''users'', JArr [JObj [(''id'', JNum 1)]])])]),
      backend_calls = [users_cmd]\<rparr> \<and>
   subprocess_run (test_env (psql_gives 0 nl [])) users_cmd
     = Inr \<lparr>returncode = 0, stdout = nl, stderr = []\<rparr> \<and>
   strip nl = [] \<and>
   do_POST (test_env (psql_gives 0 nl [])) users_request = Inr
     \<lparr>status_lines = [200],
      header_lines = [(''Content-type'', ''application/json''),
                      (''Access-Control-Allow-Origin'', ''*'')],
      headers_ended = True,
      wfile = json_dumps (test_env (psql_gives 0 nl []))
                (JObj [(''data'', JObj [(''users'', JArr [])])]),
      backend_calls = [users_cmd]\<rparr>"
proof -
  let ?q = "''{ users { id name email } }''"
  let ?E = "test_env (psql_gives 0 rows_out [])"
  let ?E' = "test_env (psql_gives 0 nl [])"
  let ?r = "\<lparr>returncode = 0, stdout = rows_out, stderr = []\<rparr>"
  let ?r' = "\<lparr>returncode = 0, stdout = nl, stderr = []\<rparr>"
  have h1: "path users_request = ''/graphql''" by code_simp
  have h2: "read_body ?E users_request = Inr (query_body ?q)" by code_simp
  have h3: "parse_body ?E (query_body ?q) = Inr (JObj [(''query'', JStr ?q)])" by code_simp
  have h4: "py_get (JObj [(''query'', JStr ?q)]) ''query'' (JStr []) = Inr (JStr ?q)"
    by code_simp
  have h5: "str_contains ''users'' ?q" by code_simp
  have h6: "\<not> str_contains ''posts'' ?q" by code_simp
  have h7: "subprocess_run ?E users_cmd = Inr ?r" by code_simp
  have h8: "returncode ?r = 0" by simp
  have a: "strip (stdout ?r) \<noteq> [] \<and> strip (stdout ?r) \<noteq> ''null'' \<and>
      json_loads ?E (strip (stdout ?r)) = Inr (JArr [JObj [(''id'', JNum 1)]])"
    by code_simp
  have h2': "read_body ?E' users_request = Inr (query_body ?q)" by code_simp
  have h3': "parse_body ?E' (query_body ?q) = Inr (JObj [(''query'', JStr ?q)])" by code_simp
  have h7': "subprocess_run ?E' users_cmd = Inr ?r'" by code_simp
  have h8': "returncode ?r' = 0" by simp
  have a': "strip (stdout ?r') = []" by code_simp
  note c = users_query_returns_data [OF h1 h2 h3 h4 h5 h6 h7 h8,
      where R = "JArr [JObj [(''id'', JNum 1)]]", THEN conjunct1, rule_format, OF a]
  note c' = users_query_returns_data [OF h1 h2' h3' h4 h5 h6 h7' h8',
      THEN conjunct2, rule_format, OF disjI1, OF a']
  from a a' have s: "strip rows_out \<noteq> [] \<and> strip rows_out \<noteq> ''null'' \<and>
      json_loads ?E (strip rows_out) = Inr (JArr [JObj [(''id'', JNum 1)]]) \<and> strip nl = []"
    by simp
  from h1 h2 h3 h4 h5 h6 h7 s c h7' c' show ?thesis by blast
qed

subsection \<open>The posts query\<close>

text \<open>
  Claim C2, as amended. A POST request to \<open>/graphql\<close> whose body parses as JSON and
  whose \<open>query\<close> text contains \<open>posts\<close> and not \<open>users\<close> starts the posts command and
  nothing else and is answered, when the backend exits with code 0, with status 200 and
  the body \<open>{"data": {"posts": R}}\<close>: \<open>R\<close> is the decoded stripped output of the posts
  command when that output is neither empty nor \<open>null\<close>, and the empty list when it is.
\<close>

theorem posts_query_returns_data:
  assumes "path req = ''/graphql''"
    and "read_body env req = Inr post_data"
    and "parse_body env post_data = Inr query_data"
    and "py_get query_data ''query'' (JStr []) = Inr (JStr q)"
    and "str_contains ''posts'' q" and "\<not> str_contains ''users'' q"
    and "subprocess_run env posts_cmd = Inr result" and "returncode result = 0"
  shows "(strip (stdout result) \<noteq> [] \<and> strip (stdout result) \<noteq> ''null'' \<and>
          json_loads env (strip (stdout result)) = Inr R \<longrightarrow>
            do_POST env req = Inr
              \<lparr>status_lines = [200],
               header_lines = [(''Content-type'', ''application/json''),
                               (''Access-Control-Allow-Origin'', ''*'')],
               headers_ended = True,
               wfile = json_dumps env (JObj [(''data'', JObj [(''posts'', R)])]),
               backend_calls = [posts_cmd]\<rparr>) \<and>
         (strip (stdout result) = [] \<or> strip (stdout result) = ''null'' \<longrightarrow>
            do_POST env req = Inr
              \<lparr>status_lines = [200],
               header_lines = [(''Content-type'', ''application/json''),
                               (''Access-Control-Allow-Origin'', ''*'')],
               headers_ended = True,
               wfile = json_dumps env (JObj [(''data'', JObj [(''posts'', JArr [])])]),
               backend_calls = [posts_cmd]\<rparr>)"
proof -
  have "resolve env post_data = posts_branch env"
    using assms(3-6)
    by (simp add: resolve_query [where is_users = False and is_posts = True])
  then show ?thesis
    using assms(7,8)
    by (auto simp: do_POST_endpoint [OF assms(1,2)] posts_branch_ok write_ok_explicit
        data_response_def)
qed

theorem posts_query_returns_data_witness:
  "path posts_request = ''/graphql'' \<and>
   read_body (test_env (psql_gives 0 rows_out [])) posts_request
     = Inr (query_body ''{ posts { id title author { name } } }'') \<and>
   parse_body (test_env (psql_gives 0 rows_out []))
       (query_body ''{ posts { id title author { name } } }'')
     = Inr (JObj [(''query'', JStr ''{ posts { id title author { name } } }'')]) \<and>
   py_get (JObj [(''query'', JStr ''{ posts { id title author { name } } }'')]) ''query''
       (JStr [])
     = Inr (JStr ''{ posts { id title author { name } } }'') \<and>
   str_contains ''posts'' ''{ posts { id title author { name } } }'' \<and>
   \<not> str_contains ''users'' ''{ posts { id title author { name } } }'' \<and>
   subprocess_run (test_env (psql_gives 0 rows_out [])) posts_cmd
     = Inr \<lparr>returncode = 0, stdout = rows_out, stderr = []\<rparr> \<and>
   strip rows_out \<noteq> [] \<and> strip rows_out \<noteq> ''null'' \<and>
   json_loads (test_env (psql_gives 0 rows_out [])) (strip rows_out)
     = Inr (JArr [JObj [(''id'', JNum 1)]]) \<and>
   do_POST (test_env (psql_gives 0 rows_out [])) posts_request = Inr
     \<lparr>status_lines = [200],
      header_lines = [(''Content-type'', ''application/json''),
                      (''Access-Control-Allow-Origin'', ''*'')],
      headers_ended = True,
      wfile = json_dumps (test_env (psql_gives 0 rows_out []))
                (JObj [(''data'', JObj [(''posts'', JArr [JObj [(''id'', JNum 1)]])])]),
      backend_calls = [posts_cmd]\<rparr> \<and>
   subprocess_run (test_env (psql_gives 0 ''null'' [])) posts_cmd
     = Inr \<lparr>returncode = 0, stdout = ''null'', stderr = []\<rparr> \<and>
   strip ''null'' = ''null'' \<and>
   do_POST (test_env (psql_gives 0 ''null'' [])) posts_request = Inr
     \<lparr>status_lines = [200],
      header_lines = [(''Content-type'', ''application/json''),
                      (''Access-Control-Allow-Origin'', ''*'')],
      headers_ended = True,
      wfile = json_dumps (test_env (psql_gives 0 ''null'' []))
                (JObj [(''data'', JObj [(''posts'', JArr [])])]),
      backend_calls = [posts_cmd]\<rparr>"
proof -
  let ?q = "''{ posts { id title author { name } } }''"
  let ?E = "test_env (psql_gives 0 rows_out [])"
  let ?E' = "test_env (psql_gives 0 ''null'' [])"
  let ?r = "\<lparr>returncode = 0, stdout = rows_out, stderr = []\<rparr>"
  let ?r' = "\<lparr>returncode = 0, stdout = ''null'', stderr = []\<rparr>"
  have h1: "path posts_request = ''/graphql''" by code_simp
  have h2: "read_body ?E posts_request = Inr (query_body ?q)" by code_simp
  have h3: "parse_body ?E (query_body ?q) = Inr (JObj [(''query'', JStr ?q)])" by code_simp
  have h4: "py_get (JObj [(''query'', JStr ?q)]) ''query'' (JStr []) = Inr (JStr ?q)"
    by code_simp
  have h5: "str_contains ''posts'' ?q" by code_simp
  have h6: "\<not> str_contains ''users'' ?q" by code_simp
  have h7: "subprocess_run ?E posts_cmd = Inr ?r" by code_simp
  have h8: "returncode ?r = 0" by simp
  have a: "strip (stdout ?r) \<noteq> [] \<and> strip (stdout ?r) \<noteq> ''null'' \<and>
      json_loads ?E (strip (stdout ?r)) = Inr (JArr [JObj [(''id'', JNum 1)]])"
    by code_simp
  have h2': "read_body ?E' posts_request = Inr (query_body ?q)" by code_simp
  have h3': "parse_body ?E' (query_body ?q) = Inr (JObj [(''query'', JStr ?q)])" by code_simp
  have h7': "subprocess_run ?E' posts_cmd = Inr ?r'" by code_simp
  have h8': "returncode ?r' = 0" by simp
  have a': "strip (stdout ?r') = ''null''" by code_simp
  note c = posts_query_returns_data [OF h1 h2 h3 h4 h5 h6 h7 h8,
      where R = "JArr [JObj [(''id'', JNum 1)]]", THEN conjunct1, rule_format, OF a]
  note c' = posts_query_returns_data [OF h1 h2' h3' h4 h5 h6 h7' h8',
      THEN conjunct2, rule_format, OF disjI2, OF a']
  from a a' have s: "strip rows_out \<noteq> [] \<and> strip rows_out \<noteq> ''null'' \<and>
      json_loads ?E (strip rows_out) = Inr (JArr [JObj [(''id'', JNum 1)]]) \<and>
      strip ''null'' = ''null''"
    by simp
  from h1 h2 h3 h4 h5 h6 h7 s c h7' c' show ?thesis by blast
qed

text \<open>
  The claim as written also covers a query that contains both keywords. There the
  \<open>users\<close> test comes first: the users command runs and the body carries \<open>users\<close>.
\<close>

theorem posts_query_with_users_counterexample:
  "path both_request = ''/graphql'' \<and>
   parse_body (test_env (psql_gives 0 rows_out [])) (rfile both_request)
     = Inr (JObj [(''query'', JStr ''{ posts { title } users { name } }'')]) \<and>
   str_contains ''posts'' ''{ posts { title } users { name } }'' \<and>
   do_POST (test_env (psql_gives 0 rows_out [])) both_request = Inr
     \<lparr>status_lines = [200],
      header_lines = [(''Content-type'', ''application/json''),
                      (''Access-Control-Allow-Origin'', ''*'')],
      headers_ended = True,
      wfile = json_dumps (test_env (psql_gives 0 rows_out []))
                (JObj [(''data'', JObj [(''users'', JArr [JObj [(''id'', JNum 1)]])])]),
      backend_calls = [users_cmd]\<rparr> \<and>
   do_POST (test_env (psql_gives 0 rows_out [])) both_request \<noteq> Inr
     \<lparr>status_lines = [200],
      header_lines = [(''Content-type'', ''application/json''),
                      (''Access-Control-Allow-Origin'', ''*'')],
      headers_ended = True,
      wfile = json_dumps (test_env (psql_gives 0 rows_out []))
                (JObj [(''data'', JObj [(''posts'', JArr [JObj [(''id'', JNum 1)]])])]),
      backend_calls = [posts_cmd]\<rparr>"
  by code_simp

subsection \<open>Requests for another path\<close>

text \<open>
  Claim C3, as amended. A POST request for a path other than \<open>/graphql\<close> is answered
  with status 404, no header of the handler and no body, and starts no backend command. An OPTIONS
  request for such a path is answered like every OPTIONS request: status 200, the three
  \<open>Access-Control\<close> headers and no body.
\<close>

theorem other_path_answer:
  assumes "path req \<noteq> ''/graphql''"
  shows "handle env POST req = Inr
           \<lparr>status_lines = [404], header_lines = [], headers_ended = True,
            wfile = [], backend_calls = []\<rparr> \<and>
         handle env OPTIONS req = Inr
           \<lparr>status_lines = [200],
            header_lines = [(''Access-Control-Allow-Origin'', ''*''),
                            (''Access-Control-Allow-Methods'', ''POST, OPTIONS''),
                            (''Access-Control-Allow-Headers'', ''Content-Type'')],
            headers_ended = True, wfile = [], backend_calls = []\<rparr>"
  using assms
  by (simp add: do_POST_def do_OPTIONS_def end_headers_def send_header_def
      send_response_def no_trace_def)

theorem other_path_answer_witness:
  "path (request_to ''/health'' []) \<noteq> ''/graphql'' \<and>
   handle (test_env (psql_gives 0 rows_out [])) POST (request_to ''/health'' []) = Inr
     \<lparr>status_lines = [404], header_lines = [], headers_ended = True,
      wfile = [], backend_calls = []\<rparr> \<and>
   handle (test_env (psql_gives 0 rows_out [])) OPTIONS (request_to ''/health'' []) = Inr
     \<lparr>status_lines = [200],
      header_lines = [(''Access-Control-Allow-Origin'', ''*''),
                      (''Access-Control-Allow-Methods'', ''POST, OPTIONS''),
                      (''Access-Control-Allow-Headers'', ''Content-Type'')],
      headers_ended = True, wfile = [], backend_calls = []\<rparr>"
proof -
  have h: "path (request_to ''/health'' []) \<noteq> ''/graphql''" by code_simp
  from h other_path_answer [OF h] show ?thesis by blast
qed

text \<open>
  The claim as written promises 404 for OPTIONS too. \<open>do_OPTIONS\<close> does not look at
  the path: on \<open>/health\<close> it answers 200.
\<close>

theorem options_other_path_counterexample:
  "path (request_to ''/health'' []) \<noteq> ''/graphql'' \<and>
   handle (test_env (psql_gives 0 rows_out [])) OPTIONS (request_to ''/health'' []) = Inr
     \<lparr>status_lines = [200],
      header_lines = [(''Access-Control-Allow-Origin'', ''*''),
                      (''Access-Control-Allow-Methods'', ''POST, OPTIONS''),
                      (''Access-Control-Allow-Headers'', ''Content-Type'')],
      headers_ended = True, wfile = [], backend_calls = []\<rparr> \<and>
   handle (test_env (psql_gives 0 rows_out [])) OPTIONS (request_to ''/health'' []) \<noteq> Inr
     \<lparr>status_lines = [404], header_lines = [], headers_ended = True,
      wfile = [], backend_calls = []\<rparr>"
  by code_simp

subsection \<open>Failures\<close>

text \<open>
  Once the body has been read, \<open>do_POST\<close> returns with exactly one status line, 200 or
  500, and a failure of the \<open>try\<close> block becomes the 500 answer whose body is the
  \<open>errors\<close> array with the text of the exception.
\<close>

lemma do_POST_after_read:
  assumes "path req = ''/graphql''" and "read_body env req = Inr post_data"
  shows "\<exists>t. do_POST env req = Inr t \<and> (status_lines t = [200] \<or> status_lines t = [500])"
proof (cases "resolve env post_data")
  case (Pair r calls)
  then show ?thesis
    by (cases r)
      (simp_all add: do_POST_endpoint [OF assms] write_ok_explicit write_error_explicit)
qed

lemma do_POST_raised_in_try:
  assumes "path req = ''/graphql''" and "read_body env req = Inr post_data"
    and "resolve env post_data = (Inl e, calls)"
  shows "do_POST env req = Inr
           \<lparr>status_lines = [500],
            header_lines = [(''Content-type'', ''application/json'')],
            headers_ended = True,
            wfile = json_dumps env (JObj [(''errors'', JArr [JObj [(''message'', JStr e)]])]),
            backend_calls = calls\<rparr>"
  using assms(3)
  by (simp add: do_POST_endpoint [OF assms(1,2)] write_error_explicit errors_response_def)

lemma body_not_json:
  assumes "parse_body env post_data = Inl e"
  shows "resolve env post_data = (Inl e, [])"
  using assms by (simp add: resolve_def)

lemma users_output_not_json:
  assumes "parse_body env post_data = Inr query_data"
    and "py_get query_data ''query'' (JStr []) = Inr query"
    and "py_in ''users'' query = Inr True"
    and "subprocess_run env users_cmd = Inr result" and "returncode result = 0"
    and "strip (stdout result) \<noteq> []" and "strip (stdout result) \<noteq> ''null''"
    and "json_loads env (strip (stdout result)) = Inl e"
  shows "resolve env post_data = (Inl e, [users_cmd])"
proof -
  obtain p where "py_in ''posts'' query = Inr p"
    using assms(3) by (cases query) simp_all
  then have "resolve env post_data = users_branch env"
    using assms(1-3) by (simp add: resolve_query [where is_users = True])
  then show ?thesis
    using assms(4-8) by (simp add: users_branch_ok)
qed

text \<open>
  Claim C4. The claim: \<open>do_POST\<close> never raises for a POST request to \<open>/graphql\<close>; every
  failure becomes a 500 answer. The two statements that read the body stand before the
  \<open>try\<close>: for a request without a \<open>Content-Length\<close> header, \<open>int(None)\<close> raises
  \<open>TypeError\<close>, the exception leaves \<open>do_POST\<close>, and nothing is written.
\<close>

theorem missing_content_length_raises:
  "do_POST (test_env (psql_gives 0 rows_out []))
     \<lparr>path = ''/graphql'', headers = [],
      rfile = query_body ''{ users { id name email } }''\<rparr>
   = Inl (''int() argument must be a string, a bytes-like object or a real number, not ''
          @ quoted ''NoneType'')"
  by code_simp

subsection \<open>A failing backend\<close>

text \<open>Reading and parsing the body do not involve the backend.\<close>

lemma read_body_backend [simp]:
  "read_body (env\<lparr>subprocess_run := run\<rparr>) req = read_body env req"
  by (simp add: read_body_def py_int_def split: option.split)

lemma parse_body_backend [simp]:
  "parse_body (env\<lparr>subprocess_run := run\<rparr>) post_data = parse_body env post_data"
  by (simp add: parse_body_def split: sum.split)

text \<open>
  Claim C5. A POST request to \<open>/graphql\<close> whose \<open>query\<close> text contains a keyword, and
  for which the backend command of that keyword exits with a code other than 0, is
  answered with status 200 and the body
  \<open>{"errors": [{"message": "Database query failed"}]}\<close>. The answer is the same
  whatever the backend wrote to its standard error.
\<close>

theorem backend_failure_answer:
  assumes "path req = ''/graphql''"
    and "read_body env req = Inr post_data"
    and "parse_body env post_data = Inr query_data"
    and "py_get query_data ''query'' (JStr []) = Inr (JStr q)"
    and "str_contains ''users'' q \<or> str_contains ''posts'' q"
    and "cmd = (if str_contains ''users'' q then users_cmd else posts_cmd)"
    and "subprocess_run env cmd = Inr result"
    and "returncode result \<noteq> 0"
  shows "do_POST env req = Inr
           \<lparr>status_lines = [200],
            header_lines = [(''Content-type'', ''application/json''),
                            (''Access-Control-Allow-Origin'', ''*'')],
            headers_ended = True,
            wfile = json_dumps env
              (JObj [(''errors'', JArr [JObj [(''message'', JStr ''Database query failed'')]])]),
            backend_calls = [cmd]\<rparr> \<and>
         (\<forall>err. do_POST
            (env\<lparr>subprocess_run :=
               (\<lambda>args. if args = cmd then Inr (result\<lparr>stderr := err\<rparr>)
                       else subprocess_run env args)\<rparr>) req
            = do_POST env req)"
proof -
  have main: "do_POST env' req = Inr
           \<lparr>status_lines = [200],
            header_lines = [(''Content-type'', ''application/json''),
                            (''Access-Control-Allow-Origin'', ''*'')],
            headers_ended = True,
            wfile = json_dumps env'
              (JObj [(''errors'', JArr [JObj [(''message'', JStr ''Database query failed'')]])]),
            backend_calls = [cmd]\<rparr>"
    if rd: "read_body env' req = Inr post_data"
      and pb: "parse_body env' post_data = Inr query_data"
      and run: "subprocess_run env' cmd = Inr result'"
      and rc: "returncode result' \<noteq> 0"
    for env' result'
  proof (cases "str_contains ''users'' q")
    case True
    then have "resolve env' post_data = users_branch env'"
      using pb assms(4) by (simp add: resolve_query [where is_users = True])
    moreover have "users_branch env' =
        (Inr (errors_response ''Database query failed''), [users_cmd])"
      using run rc True assms(6) by (simp add: users_branch_def)
    ultimately show ?thesis
      using True assms(6)
      by (simp add: do_POST_endpoint [OF assms(1) rd] write_ok_explicit errors_response_def)
  next
    case False
    with assms(5) have p: "str_contains ''posts'' q" by simp
    then have "resolve env' post_data = posts_branch env'"
      using pb assms(4) False
      by (simp add: resolve_query [where is_users = False and is_posts = True])
    moreover have "posts_branch env' =
        (Inr (errors_response ''Database query failed''), [posts_cmd])"
      using run rc False assms(6) by (simp add: posts_branch_def)
    ultimately show ?thesis
      using False assms(6)
      by (simp add: do_POST_endpoint [OF assms(1) rd] write_ok_explicit errors_response_def)
  qed
  have first: "do_POST env req = Inr
           \<lparr>status_lines = [200],
            header_lines = [(''Content-type'', ''application/json''),
                            (''Access-Control-Allow-Origin'', ''*'')],
            headers_ended = True,
            wfile = json_dumps env
              (JObj [(''errors'', JArr [JObj [(''message'', JStr ''Database query failed'')]])]),
            backend_calls = [cmd]\<rparr>"
    by (rule main [OF assms(2,3,7,8)])
  have "do_POST
            (env\<lparr>subprocess_run :=
               (\<lambda>args. if args = cmd then Inr (result\<lparr>stderr := err\<rparr>)
                       else subprocess_run env args)\<rparr>) req
            = do_POST env req" for err
  proof -
    let ?env' = "env\<lparr>subprocess_run :=
               (\<lambda>args. if args = cmd then Inr (result\<lparr>stderr := err\<rparr>)
                       else subprocess_run env args)\<rparr>"
    have rd: "read_body ?env' req = Inr post_data"
      using assms(2) by simp
    have pb: "parse_body ?env' post_data = Inr query_data"
      using assms(3) by simp
    have run: "subprocess_run ?env' cmd = Inr (result\<lparr>stderr := err\<rparr>)" by simp
    have rc: "returncode (result\<lparr>stderr := err\<rparr>) \<noteq> 0" using assms(8) by simp
    show ?thesis
      using main [OF rd pb run rc] first by simp
  qed
  with first show ?thesis by blast
qed

theorem backend_failure_answer_witness:
  "path users_request = ''/graphql'' \<and>
   read_body (test_env (psql_gives 2 [] ''psql: error: connection refused'')) users_request
     = Inr (query_body ''{ users { id name email } }'') \<and>
   parse_body (test_env (psql_gives 2 [] ''psql: error: connection refused''))
       (query_body ''{ users { id name email } }'')
     = Inr (JObj [(''query'', JStr ''{ users { id name email } }'')]) \<and>
   py_get (JObj [(''query'', JStr ''{ users { id name email } }'')]) ''query'' (JStr [])
     = Inr (JStr ''{ users { id name email } }'') \<and>
   (str_contains ''users'' ''{ users { id name email } }'' \<or>
    str_contains ''posts'' ''{ users { id name email } }'') \<and>
   users_cmd = (if str_contains ''users'' ''{ users { id name email } }''
                then users_cmd else posts_cmd) \<and>
   subprocess_run (test_env (psql_gives 2 [] ''psql: error: connection refused'')) users_cmd
     = Inr \<lparr>returncode = 2, stdout = [], stderr = ''psql: error: connection refused''\<rparr> \<and>
   returncode \<lparr>returncode = 2, stdout = [], stderr = ''psql: error: connection refused''\<rparr>
     \<noteq> 0 \<and>
   do_POST (test_env (psql_gives 2 [] ''psql: error: connection refused'')) users_request
     = Inr
       \<lparr>status_lines = [200],
        header_lines = [(''Content-type'', ''application/json''),
                        (''Access-Control-Allow-Origin'', ''*'')],
        headers_ended = True,
        wfile = json_dumps (test_env (psql_gives 2 [] ''psql: error: connection refused''))
          (JObj [(''errors'', JArr [JObj [(''message'', JStr ''Database query failed'')]])]),
        backend_calls = [users_cmd]\<rparr>"
proof -
  let ?q = "''{ users { id name email } }''"
  let ?E = "test_env (psql_gives 2 [] ''psql: error: connection refused'')"
  let ?r = "\<lparr>returncode = 2, stdout = [], stderr = ''psql: error: connection refused''\<rparr>"
  have h1: "path users_request = ''/graphql''" by code_simp
  have h2: "read_body ?E users_request = Inr (query_body ?q)" by code_simp
  have h3: "parse_body ?E (query_body ?q) = Inr (JObj [(''query'', JStr ?q)])" by code_simp
  have h4: "py_get (JObj [(''query'', JStr ?q)]) ''query'' (JStr []) = Inr (JStr ?q)"
    by code_simp
  have h5: "str_contains ''users'' ?q \<or> str_contains ''posts'' ?q" by code_simp
  have h6: "users_cmd = (if str_contains ''users'' ?q then users_cmd else posts_cmd)"
    by code_simp
  have h7: "subprocess_run ?E users_cmd = Inr ?r" by code_simp
  have h8: "returncode ?r \<noteq> 0" by simp
  note c = backend_failure_answer [OF h1 h2 h3 h4 h5 h6 h7 h8, THEN conjunct1]
  from h1 h2 h3 h4 h5 h6 h7 h8 c show ?thesis by blast
qed

subsection \<open>Queries that match no keyword\<close>

text \<open>
  Claim C6, as amended. A POST request to \<open>/graphql\<close> whose body parses as a JSON
  object, and whose \<open>query\<close> field (the empty string when the field is absent) is a
  string, a list or an object in which Python's \<open>in\<close> finds neither \<open>users\<close> nor
  \<open>posts\<close>, is answered with status 200 and the body
  \<open>{"errors": [{"message": "Unknown query"}]}\<close>, and no backend command is started.
\<close>

theorem unknown_query_answer:
  assumes "path req = ''/graphql''"
    and "read_body env req = Inr post_data"
    and "parse_body env post_data = Inr query_data"
    and "py_get query_data ''query'' (JStr []) = Inr query"
    and "py_in ''users'' query = Inr False"
    and "py_in ''posts'' query = Inr False"
  shows "do_POST env req = Inr
           \<lparr>status_lines = [200],
            header_lines = [(''Content-type'', ''application/json''),
                            (''Access-Control-Allow-Origin'', ''*'')],
            headers_ended = True,
            wfile = json_dumps env
              (JObj [(''errors'', JArr [JObj [(''message'', JStr ''Unknown query'')]])]),
            backend_calls = []\<rparr>"
proof -
  have "resolve env post_data = (Inr (errors_response ''Unknown query''), [])"
    using assms(3-6)
    by (simp add: resolve_query [where is_users = False and is_posts = False])
  then show ?thesis
    by (simp add: do_POST_endpoint [OF assms(1,2)] write_ok_explicit errors_response_def)
qed

theorem unknown_query_answer_witness:
  "path unknown_request = ''/graphql'' \<and>
   read_body (test_env (psql_gives 0 rows_out [])) unknown_request
     = Inr (query_body ''{ unknownField }'') \<and>
   parse_body (test_env (psql_gives 0 rows_out [])) (query_body ''{ unknownField }'')
     = Inr (JObj [(''query'', JStr ''{ unknownField }'')]) \<and>
   py_get (JObj [(''query'', JStr ''{ unknownField }'')]) ''query'' (JStr [])
     = Inr (JStr ''{ unknownField }'') \<and>
   py_in ''users'' (JStr ''{ unknownField }'') = Inr False \<and>
   py_in ''posts'' (JStr ''{ unknownField }'') = Inr False \<and>
   do_POST (test_env (psql_gives 0 rows_out [])) unknown_request = Inr
     \<lparr>status_lines = [200],
      header_lines = [(''Content-type'', ''application/json''),
                      (''Access-Control-Allow-Origin'', ''*'')],
      headers_ended = True,
      wfile = json_dumps (test_env (psql_gives 0 rows_out []))
        (JObj [(''errors'', JArr [JObj [(''message'', JStr ''Unknown query'')]])]),
      backend_calls = []\<rparr>"
proof -
  let ?q = "''{ unknownField }''"
  let ?E = "test_env (psql_gives 0 rows_out [])"
  have h1: "path unknown_request = ''/graphql''" by code_simp
  have h2: "read_body ?E unknown_request = Inr (query_body ?q)" by code_simp
  have h3: "parse_body ?E (query_body ?q) = Inr (JObj [(''query'', JStr ?q)])" by code_simp
  have h4: "py_get (JObj [(''query'', JStr ?q)]) ''query'' (JStr []) = Inr (JStr ?q)"
    by code_simp
  have h5: "py_in ''users'' (JStr ?q) = Inr False" by code_simp
  have h6: "py_in ''posts'' (JStr ?q) = Inr False" by code_simp
  note c = unknown_query_answer [OF h1 h2 h3 h4 h5 h6]
  from h1 h2 h3 h4 h5 h6 c show ?thesis by blast
qed

text \<open>
  The claim as written covers every body that parses as JSON. The body
  \<open>{"query": 5}\<close> parses, and its \<open>query\<close> contains neither keyword; there
  \<open>'users' in query\<close> raises \<open>TypeError\<close> and the answer is 500.
\<close>

theorem number_query_counterexample:
  "path number_request = ''/graphql'' \<and>
   read_body (test_env (psql_gives 0 rows_out [])) number_request
     = Inr (rfile number_request) \<and>
   parse_body (test_env (psql_gives 0 rows_out [])) (rfile number_request)
     = Inr (JObj [(''query'', JNum 5)]) \<and>
   do_POST (test_env (psql_gives 0 rows_out [])) number_request = Inr
     \<lparr>status_lines = [500],
      header_lines = [(''Content-type'', ''application/json'')],
      headers_ended = True,
      wfile = json_dumps (test_env (psql_gives 0 rows_out []))
        (JObj [(''errors'', JArr [JObj [(''message'',
           JStr (''argument of type '' @ quoted ''int'' @ '' is not iterable''))]])]),
      backend_calls = []\<rparr> \<and>
   do_POST (test_env (psql_gives 0 rows_out [])) number_request \<noteq> Inr
     \<lparr>status_lines = [200],
      header_lines = [(''Content-type'', ''application/json''),
                      (''Access-Control-Allow-Origin'', ''*'')],
      headers_ended = True,
      wfile = json_dumps (test_env (psql_gives 0 rows_out []))
        (JObj [(''errors'', JArr [JObj [(''message'', JStr ''Unknown query'')]])]),
      backend_calls = []\<rparr>"
  by code_simp

text \<open>
  Claim C10. Keywords are matched with their case: a POST request to \<open>/graphql\<close>
  whose \<open>query\<close> text contains \<open>users\<close> or \<open>posts\<close> only in another casing (the
  keyword occurs in the lower-cased text, not in the text itself) is answered with
  the \<open>Unknown query\<close> error and starts no backend command.
\<close>

theorem keyword_match_is_case_sensitive:
  assumes "path req = ''/graphql''"
    and "read_body env req = Inr post_data"
    and "parse_body env post_data = Inr query_data"
    and "py_get query_data ''query'' (JStr []) = Inr (JStr q)"
    and "str_contains ''users'' (map to_lower q) \<or> str_contains ''posts'' (map to_lower q)"
    and "\<not> str_contains ''users'' q" and "\<not> str_contains ''posts'' q"
  shows "do_POST env req = Inr
           \<lparr>status_lines = [200],
            header_lines = [(''Content-type'', ''application/json''),
                            (''Access-Control-Allow-Origin'', ''*'')],
            headers_ended = True,
            wfile = json_dumps env
              (JObj [(''errors'', JArr [JObj [(''message'', JStr ''Unknown query'')]])]),
            backend_calls = []\<rparr>"
proof -
  have "resolve env post_data = (Inr (errors_response ''Unknown query''), [])"
    using assms(3,4,6,7)
    by (simp add: resolve_query [where is_users = False and is_posts = False])
  then show ?thesis
    by (simp add: do_POST_endpoint [OF assms(1,2)] write_ok_explicit errors_response_def)
qed

theorem keyword_match_is_case_sensitive_witness:
  "path cased_request = ''/graphql'' \<and>
   read_body (test_env (psql_gives 0 rows_out [])) cased_request
     = Inr (query_body ''{ Users { id } }'') \<and>
   parse_body (test_env (psql_gives 0 rows_out [])) (query_body ''{ Users { id } }'')
     = Inr (JObj [(''query'', JStr ''{ Users { id } }'')]) \<and>
   py_get (JObj [(''query'', JStr ''{ Users { id } }'')]) ''query'' (JStr [])
     = Inr (JStr ''{ Users { id } }'') \<and>
   (str_contains ''users'' (map to_lower ''{ Users { id } }'') \<or>
    str_contains ''posts'' (map to_lower ''{ Users { id } }'')) \<and>
   \<not> str_contains ''users'' ''{ Users { id } }'' \<and>
   \<not> str_contains ''posts'' ''{ Users { id } }'' \<and>
   do_POST (test_env (psql_gives 0 rows_out [])) cased_request = Inr
     \<lparr>status_lines = [200],
      header_lines = [(''Content-type'', ''application/json''),
                      (''Access-Control-Allow-Origin'', ''*'')],
      headers_ended = True,
      wfile = json_dumps (test_env (psql_gives 0 rows_out []))
        (JObj [(''errors'', JArr [JObj [(''message'', JStr ''Unknown query'')]])]),
      backend_calls = []\<rparr>"
proof -
  let ?q = "''{ Users { id } }''"
  let ?E = "test_env (psql_gives 0 rows_out [])"
  have h1: "path cased_request = ''/graphql''" by code_simp
  have h2: "read_body ?E cased_request = Inr (query_body ?q)" by code_simp
  have h3: "parse_body ?E (query_body ?q) = Inr (JObj [(''query'', JStr ?q)])" by code_simp
  have h4: "py_get (JObj [(''query'', JStr ?q)]) ''query'' (JStr []) = Inr (JStr ?q)"
    by code_simp
  have h5: "str_contains ''users'' (map to_lower ?q) \<or> str_contains ''posts'' (map to_lower ?q)"
    by code_simp
  have h6: "\<not> str_contains ''users'' ?q" by code_simp
  have h7: "\<not> str_contains ''posts'' ?q" by code_simp
  note c = keyword_match_is_case_sensitive [OF h1 h2 h3 h4 h5 h6 h7]
  from h1 h2 h3 h4 h5 h6 h7 c show ?thesis by blast
qed

subsection \<open>What reaches the backend, and what the answer depends on\<close>

lemma users_branch_calls: "snd (users_branch env) = [users_cmd]"
  by (simp add: users_branch_def split: sum.split)

lemma posts_branch_calls: "snd (posts_branch env) = [posts_cmd]"
  by (simp add: posts_branch_def split: sum.split)

lemma resolve_calls:
  assumes "parse_body env post_data = Inr query_data"
    and "py_get query_data ''query'' (JStr []) = Inr (JStr q)"
  shows "snd (resolve env post_data) = branch_calls (keyword_branch q)"
  using assms
  by (simp add: resolve_query [where is_users = "str_contains ''users'' q"
        and is_posts = "str_contains ''posts'' q"]
      keyword_branch_def branch_calls_def users_branch_calls posts_branch_calls)

lemma do_POST_calls:
  assumes "path req = ''/graphql''" and "read_body env req = Inr post_data"
  shows "\<exists>t. do_POST env req = Inr t \<and> backend_calls t = snd (resolve env post_data)"
proof (cases "resolve env post_data")
  case (Pair r calls)
  then show ?thesis
    by (cases r)
      (simp_all add: do_POST_endpoint [OF assms] write_ok_explicit write_error_explicit)
qed

text \<open>
  Claim C8. The query text does not reach the backend command. Two POST requests to
  \<open>/graphql\<close> whose \<open>query\<close> texts select the same branch, handled in any two
  environments, start the same backend commands with the same arguments: the fixed
  argument list of the branch, or none for a text without keyword.
\<close>

theorem backend_arguments_fixed:
  assumes "path req1 = ''/graphql''"
    and "read_body env1 req1 = Inr post_data1"
    and "parse_body env1 post_data1 = Inr query_data1"
    and "py_get query_data1 ''query'' (JStr []) = Inr (JStr q1)"
    and "path req2 = ''/graphql''"
    and "read_body env2 req2 = Inr post_data2"
    and "parse_body env2 post_data2 = Inr query_data2"
    and "py_get query_data2 ''query'' (JStr []) = Inr (JStr q2)"
    and "keyword_branch q1 = keyword_branch q2"
  shows "\<exists>t1 t2. do_POST env1 req1 = Inr t1 \<and> do_POST env2 req2 = Inr t2 \<and>
           backend_calls t1 = backend_calls t2 \<and>
           backend_calls t1 =
             (case keyword_branch q1 of
                Users \<Rightarrow> [users_cmd] | Posts \<Rightarrow> [posts_cmd] | Unknown \<Rightarrow> [])"
proof -
  obtain t1 where t1: "do_POST env1 req1 = Inr t1"
      "backend_calls t1 = branch_calls (keyword_branch q1)"
    using do_POST_calls [OF assms(1,2)] resolve_calls [OF assms(3,4)] by auto
  obtain t2 where t2: "do_POST env2 req2 = Inr t2"
      "backend_calls t2 = branch_calls (keyword_branch q2)"
    using do_POST_calls [OF assms(5,6)] resolve_calls [OF assms(7,8)] by auto
  from t1 t2 assms(9) show ?thesis
    by (simp add: branch_calls_def)
qed

theorem backend_arguments_fixed_witness:
  "path users_request = ''/graphql'' \<and>
   read_body (test_env (psql_gives 0 rows_out [])) users_request
     = Inr (query_body ''{ users { id name email } }'') \<and>
   parse_body (test_env (psql_gives 0 rows_out [])) (query_body ''{ users { id name email } }'')
     = Inr (JObj [(''query'', JStr ''{ users { id name email } }'')]) \<and>
   py_get (JObj [(''query'', JStr ''{ users { id name email } }'')]) ''query'' (JStr [])
     = Inr (JStr ''{ users { id name email } }'') \<and>
   path both_request = ''/graphql'' \<and>
   read_body (test_env (psql_gives 0 rows_out [])) both_request
     = Inr (query_body ''{ posts { title } users { name } }'') \<and>
   parse_body (test_env (psql_gives 0 rows_out []))
       (query_body ''{ posts { title } users { name } }'')
     = Inr (JObj [(''query'', JStr ''{ posts { title } users { name } }'')]) \<and>
   py_get (JObj [(''query'', JStr ''{ posts { title } users { name } }'')]) ''query'' (JStr [])
     = Inr (JStr ''{ posts { title } users { name } }'') \<and>
   keyword_branch ''{ users { id name email } }''
     = keyword_branch ''{ posts { title } users { name } }'' \<and>
   (\<exists>t1 t2.
      do_POST (test_env (psql_gives 0 rows_out [])) users_request = Inr t1 \<and>
      do_POST (test_env (psql_gives 0 rows_out [])) both_request = Inr t2 \<and>
      backend_calls t1 = backend_calls t2 \<and>
      backend_calls t1 = [users_cmd])"
proof -
  let ?q1 = "''{ users { id name email } }''"
  let ?q2 = "''{ posts { title } users { name } }''"
  let ?E = "test_env (psql_gives 0 rows_out [])"
  have h1: "path users_request = ''/graphql''" by code_simp
  have h2: "read_body ?E users_request = Inr (query_body ?q1)" by code_simp
  have h3: "parse_body ?E (query_body ?q1) = Inr (JObj [(''query'', JStr ?q1)])" by code_simp
  have h4: "py_get (JObj [(''query'', JStr ?q1)]) ''query'' (JStr []) = Inr (JStr ?q1)"
    by code_simp
  have h5: "path both_request = ''/graphql''" by code_simp
  have h6: "read_body ?E both_request = Inr (query_body ?q2)" by code_simp
  have h7: "parse_body ?E (query_body ?q2) = Inr (JObj [(''query'', JStr ?q2)])" by code_simp
  have h8: "py_get (JObj [(''query'', JStr ?q2)]) ''query'' (JStr []) = Inr (JStr ?q2)"
    by code_simp
  have h9: "keyword_branch ?q1 = keyword_branch ?q2" by code_simp
  have b: "keyword_branch ?q1 = Users" by code_simp
  have c: "\<exists>t1 t2.
      do_POST ?E users_request = Inr t1 \<and> do_POST ?E both_request = Inr t2 \<and>
      backend_calls t1 = backend_calls t2 \<and> backend_calls t1 = [users_cmd]"
    using backend_arguments_fixed [OF h1 h2 h3 h4 h5 h6 h7 h8 h9] unfolding b by simp
  from h1 h2 h3 h4 h5 h6 h7 h8 h9 c show ?thesis by blast
qed



subsection \<open>The shape of the bodies written\<close>

lemma users_branch_shape:
  assumes "users_branch env = (Inr response, calls)"
  shows "errors_shape response \<or>
         data_shape (\<lambda>field r. r = JArr [] \<or> decoded_output env field r) response"
  using assms
  by (auto simp: users_branch_def Let_def decoded_output_def errors_response_def
      data_response_def split: sum.splits if_splits)

lemma posts_branch_shape:
  assumes "posts_branch env = (Inr response, calls)"
  shows "errors_shape response \<or>
         data_shape (\<lambda>field r. r = JArr [] \<or> decoded_output env field r) response"
  using assms
  by (auto simp: posts_branch_def Let_def decoded_output_def errors_response_def
      data_response_def split: sum.splits if_splits)

lemma resolve_shape:
  assumes "resolve env post_data = (Inr response, calls)"
  shows "errors_shape response \<or>
         data_shape (\<lambda>field r. r = JArr [] \<or> decoded_output env field r) response"
proof -
  consider "users_branch env = (Inr response, calls)"
    | "posts_branch env = (Inr response, calls)"
    | "response = errors_response ''Unknown query''"
    using assms by (auto simp: resolve_def split: sum.splits if_splits)
  then show ?thesis
  proof cases
    case 1
    then show ?thesis by (rule users_branch_shape)
  next
    case 2
    then show ?thesis by (rule posts_branch_shape)
  next
    case 3
    then show ?thesis by (simp add: errors_response_def)
  qed
qed

text \<open>
  Claim C9, as amended. Every body that \<open>do_POST\<close> writes for \<open>/graphql\<close> is the
  \<open>json.dumps\<close> of an object with exactly one key. Under \<open>errors\<close> stands a non-empty
  array of objects that have a \<open>message\<close> string. Under \<open>data\<close> stands an object with
  exactly one key, \<open>users\<close> or \<open>posts\<close>, whose value is the empty list or the value
  that the stripped output of that key's backend command decodes to.
\<close>

theorem response_body_shape:
  assumes "path req = ''/graphql''" and "do_POST env req = Inr t"
  shows "\<exists>response. wfile t = json_dumps env response \<and>
           (errors_shape response \<or>
            data_shape (\<lambda>field r. r = JArr [] \<or> decoded_output env field r) response)"
proof -
  obtain post_data where rd: "read_body env req = Inr post_data"
    using assms by (cases "read_body env req") (simp_all add: do_POST_def)
  obtain r calls where res: "resolve env post_data = (r, calls)"
    by (cases "resolve env post_data")
  show ?thesis
  proof (cases r)
    case (Inl e)
    with res assms(2) have "wfile t = json_dumps env (errors_response e)"
      by (auto simp: do_POST_endpoint [OF assms(1) rd] write_error_explicit)
    moreover have "errors_shape (errors_response e)"
      by (simp add: errors_response_def)
    ultimately show ?thesis by blast
  next
    case (Inr response)
    with res assms(2) have "wfile t = json_dumps env response"
      by (auto simp: do_POST_endpoint [OF assms(1) rd] write_ok_explicit)
    moreover have "errors_shape response \<or>
        data_shape (\<lambda>field r. r = JArr [] \<or> decoded_output env field r) response"
    proof -
      from res Inr have "resolve env post_data = (Inr response, calls)" by simp
      then show ?thesis by (rule resolve_shape)
    qed
    ultimately show ?thesis by blast
  qed
qed

theorem response_body_shape_witness:
  "path users_request = ''/graphql'' \<and>
   do_POST (test_env (psql_gives 0 rows_out [])) users_request = Inr
     \<lparr>status_lines = [200],
      header_lines = [(''Content-type'', ''application/json''),
                      (''Access-Control-Allow-Origin'', ''*'')],
      headers_ended = True,
      wfile = ''{'' @ dq ''data'' @ '': {'' @ dq ''users'' @ '': [{'' @ dq ''id''
                @ '': 1}]}}'',
      backend_calls = [users_cmd]\<rparr> \<and>
   (\<exists>response.
      ''{'' @ dq ''data'' @ '': {'' @ dq ''users'' @ '': [{'' @ dq ''id'' @ '': 1}]}}''
        = json_dumps (test_env (psql_gives 0 rows_out [])) response \<and>
      (errors_shape response \<or>
       data_shape (\<lambda>field r. r = JArr [] \<or>
          decoded_output (test_env (psql_gives 0 rows_out [])) field r) response))"
proof -
  let ?E = "test_env (psql_gives 0 rows_out [])"
  let ?t = "\<lparr>status_lines = [200],
      header_lines = [(''Content-type'', ''application/json''),
                      (''Access-Control-Allow-Origin'', ''*'')],
      headers_ended = True,
      wfile = ''{'' @ dq ''data'' @ '': {'' @ dq ''users'' @ '': [{'' @ dq ''id''
                @ '': 1}]}}'',
      backend_calls = [users_cmd]\<rparr>"
  have h1: "path users_request = ''/graphql''" by code_simp
  have h2: "do_POST ?E users_request = Inr ?t" by code_simp
  have c: "\<exists>response. wfile ?t = json_dumps ?E response \<and>
      (errors_shape response \<or>
       data_shape (\<lambda>field r. r = JArr [] \<or> decoded_output ?E field r) response)"
    by (rule response_body_shape [OF h1 h2])
  have w: "wfile ?t
      = ''{'' @ dq ''data'' @ '': {'' @ dq ''users'' @ '': [{'' @ dq ''id'' @ '': 1}]}}''"
    by simp
  from h1 h2 c [unfolded w] show ?thesis by blast
qed

text \<open>
  The claim as written requires a list under \<open>users\<close> or \<open>posts\<close>. The handler writes
  whatever the output of the backend decodes to: when the backend prints the object
  \<open>{"id": 1}\<close>, the body is \<open>{"data": {"users": {"id": 1}}}\<close>.
\<close>

theorem object_output_counterexample:
  "path users_request = ''/graphql'' \<and>
   do_POST (test_env (psql_gives 0 object_out [])) users_request = Inr
     \<lparr>status_lines = [200],
      header_lines = [(''Content-type'', ''application/json''),
                      (''Access-Control-Allow-Origin'', ''*'')],
      headers_ended = True,
      wfile = json_dumps (test_env (psql_gives 0 object_out []))
                (JObj [(''data'', JObj [(''users'', JObj [(''id'', JNum 1)])])]),
      backend_calls = [users_cmd]\<rparr> \<and>
   json_dumps (test_env (psql_gives 0 object_out []))
       (JObj [(''data'', JObj [(''users'', JObj [(''id'', JNum 1)])])])
     = ''{'' @ dq ''data'' @ '': {'' @ dq ''users'' @ '': {'' @ dq ''id'' @ '': 1}}}'' \<and>
   \<not> is_list (JObj [(''id'', JNum 1)]) \<and>
   \<not> (errors_shape (JObj [(''data'', JObj [(''users'', JObj [(''id'', JNum 1)])])]) \<or>
      data_shape (\<lambda>field r. is_list r)
        (JObj [(''data'', JObj [(''users'', JObj [(''id'', JNum 1)])])]))"
  by code_simp

end
